theory Spec2Isabelle
  imports Complex_Main "HOL-Library.Sublist"
begin

section \<open>Values exchanged between the stages\<close>

text \<open>
  Every stage of the contract review returns what \<^verbatim>\<open>json.loads\<close> produced from the
  model's answer, or a dictionary literal built by the stage itself. The values are
  therefore the Python images of JSON: \<^verbatim>\<open>None\<close>, \<^verbatim>\<open>bool\<close>, \<^verbatim>\<open>int\<close>, \<^verbatim>\<open>float\<close>,
  \<^verbatim>\<open>str\<close>, \<^verbatim>\<open>list\<close> and \<^verbatim>\<open>dict\<close> with string keys.

  A \<^verbatim>\<open>float\<close> is a rational or one of the three special values that \<^verbatim>\<open>json.loads\<close>
  accepts; only its comparisons with integer literals are used, and these are exact in
  Python. A \<^verbatim>\<open>str\<close> is a list of code points; the model covers the code points
  0 to 255, one \<^typ>\<open>char\<close> each. A \<^verbatim>\<open>dict\<close> is an association list in insertion
  order whose first binding of a key is the one that counts.
\<close>

datatype pyfloat = Finite rat | PosInf | NegInf | NaN

datatype json =
    JNull
  | JBool bool
  | JInt int
  | JFloat pyfloat
  | JStr string
  | JArr "json list"
  | JObj "(string \<times> json) list"

text \<open>
  The exceptions that the modelled code can meet. The first three are raised by the
  Python runtime on a value of the wrong shape: a missing method (\<^verbatim>\<open>.get\<close>,
  \<^verbatim>\<open>.lower\<close>), an operation the operand does not support (named by the operator), a
  missing key. \<open>ExternalError\<close> is anything raised by the OpenAI client, by
  \<^verbatim>\<open>json.loads\<close> or by \<^verbatim>\<open>print\<close>, carrying its text. All of them are subclasses of
  \<^verbatim>\<open>Exception\<close>,
  which is what the handlers of the source catch. (Slicing a \<^verbatim>\<open>dict\<close> raises
  \<^verbatim>\<open>TypeError\<close> up to CPython 3.11 and \<^verbatim>\<open>KeyError\<close> from 3.12 on; the model uses
  the former, and no handler tells them apart.)
\<close>

datatype exn =
    AttributeError json string
  | TypeError string json
  | KeyError string
  | ExternalError string

definition ebind :: "exn + 'a \<Rightarrow> ('a \<Rightarrow> exn + 'b) \<Rightarrow> exn + 'b" where
  "ebind m f = (case m of Inl e \<Rightarrow> Inl e | Inr x \<Rightarrow> f x)"

text \<open>Python's \<^verbatim>\<open>a or b\<close> and \<^verbatim>\<open>a and b\<close> on conditions: the right operand is
  evaluated, and can raise, only when the left one does not decide.\<close>

definition py_or :: "exn + bool \<Rightarrow> exn + bool \<Rightarrow> exn + bool" where
  "py_or a b = ebind a (\<lambda>x. if x then Inr True else b)"

definition py_and :: "exn + bool \<Rightarrow> exn + bool \<Rightarrow> exn + bool" where
  "py_and a b = ebind a (\<lambda>x. if x then b else Inr False)"

subsection \<open>Strings\<close>

text \<open>\<^verbatim>\<open>str.lower\<close> on the code points 0 to 255: the letters A to Z and the accented
  capitals 192 to 222 (without the multiplication sign 215) move up by 32, which is
  setting bit 5; every other code point stays.\<close>

definition lower_char :: "char \<Rightarrow> char" where
  "lower_char c =
     (let n = (of_char c :: nat)
      in if (65 \<le> n \<and> n \<le> 90) \<or> (192 \<le> n \<and> n \<le> 222 \<and> n \<noteq> 215)
         then (case c of Char b0 b1 b2 b3 b4 b5 b6 b7 \<Rightarrow> Char b0 b1 b2 b3 b4 True b6 b7)
         else c)"

definition lower :: "string \<Rightarrow> string" where
  "lower s = map lower_char s"

text \<open>\<^verbatim>\<open>str.isspace\<close> on one code point below 256, which is the set that
  \<^verbatim>\<open>str.strip()\<close> removes.\<close>

definition py_isspace :: "char \<Rightarrow> bool" where
  "py_isspace c =
     (let n = (of_char c :: nat)
      in (9 \<le> n \<and> n \<le> 13) \<or> (28 \<le> n \<and> n \<le> 32) \<or> n = 133 \<or> n = 160)"

definition strip :: "string \<Rightarrow> string" where
  "strip s = rev (dropWhile py_isspace (rev (dropWhile py_isspace s)))"

text \<open>\<^verbatim>\<open>needle in haystack\<close> on two strings.\<close>

fun contains :: "string \<Rightarrow> string \<Rightarrow> bool" where
  "contains needle [] = (needle = [])"
| "contains needle (c # cs) = (prefix needle (c # cs) \<or> contains needle cs)"

text \<open>\<^verbatim>\<open>str\<close> of an \<^verbatim>\<open>int\<close>: decimal digits, a minus sign for a negative number.\<close>

fun str_nat :: "nat \<Rightarrow> string" where
  "str_nat n =
     (if n < 10 then [''0123456789'' ! n]
      else str_nat (n div 10) @ [''0123456789'' ! (n mod 10)])"

definition str_int :: "int \<Rightarrow> string" where
  "str_int i = (if i < 0 then CHR ''-'' # str_nat (nat (- i)) else str_nat (nat i))"

subsection \<open>Operations of the Python runtime on these values\<close>

text \<open>\<^verbatim>\<open>d.get(key, default)\<close>.\<close>

definition py_get :: "json \<Rightarrow> string \<Rightarrow> json \<Rightarrow> exn + json" where
  "py_get d key dflt =
     (case d of
        JObj kvs \<Rightarrow> Inr (case map_of kvs key of Some v \<Rightarrow> v | None \<Rightarrow> dflt)
      | _ \<Rightarrow> Inl (AttributeError d ''get''))"

text \<open>\<^verbatim>\<open>d[key]\<close> with a string key.\<close>

definition py_item :: "json \<Rightarrow> string \<Rightarrow> exn + json" where
  "py_item d key =
     (case d of
        JObj kvs \<Rightarrow> (case map_of kvs key of Some v \<Rightarrow> Inr v | None \<Rightarrow> Inl (KeyError key))
      | _ \<Rightarrow> Inl (TypeError ''[]'' d))"

text \<open>\<^verbatim>\<open>key in x\<close> with a string key: a key of a dictionary, an element of a list, a
  substring of a string.\<close>

definition py_in :: "string \<Rightarrow> json \<Rightarrow> exn + bool" where
  "py_in key x =
     (case x of
        JObj kvs \<Rightarrow> Inr (map_of kvs key \<noteq> None)
      | JArr xs \<Rightarrow> Inr (JStr key \<in> set xs)
      | JStr s \<Rightarrow> Inr (contains key s)
      | _ \<Rightarrow> Inl (TypeError ''in'' x))"

text \<open>\<^verbatim>\<open>len(x)\<close>.\<close>

definition py_len :: "json \<Rightarrow> exn + nat" where
  "py_len x =
     (case x of
        JStr s \<Rightarrow> Inr (length s)
      | JArr xs \<Rightarrow> Inr (length xs)
      | JObj kvs \<Rightarrow> Inr (length kvs)
      | _ \<Rightarrow> Inl (TypeError ''len'' x))"

text \<open>\<^verbatim>\<open>for item in x\<close>: the elements of a list, the one-character strings of a
  string, the keys of a dictionary.\<close>

definition py_iter :: "json \<Rightarrow> exn + json list" where
  "py_iter x =
     (case x of
        JArr xs \<Rightarrow> Inr xs
      | JStr s \<Rightarrow> Inr (map (\<lambda>c. JStr [c]) s)
      | JObj kvs \<Rightarrow> Inr (map (\<lambda>kv. JStr (fst kv)) kvs)
      | _ \<Rightarrow> Inl (TypeError ''iter'' x))"

text \<open>\<^verbatim>\<open>x[:n]\<close>.\<close>

definition py_slice :: "nat \<Rightarrow> json \<Rightarrow> exn + json" where
  "py_slice n x =
     (case x of
        JArr xs \<Rightarrow> Inr (JArr (take n xs))
      | JStr s \<Rightarrow> Inr (JStr (take n s))
      | _ \<Rightarrow> Inl (TypeError ''[:]'' x))"

text \<open>\<^verbatim>\<open>x.lower()\<close>.\<close>

definition py_lower :: "json \<Rightarrow> exn + string" where
  "py_lower x = (case x of JStr s \<Rightarrow> Inr (lower s) | _ \<Rightarrow> Inl (AttributeError x ''lower''))"

text \<open>Order comparisons with an integer literal. \<^verbatim>\<open>bool\<close> is a subclass of \<^verbatim>\<open>int\<close>;
  a \<^verbatim>\<open>float\<close> compares by its exact value, and \<^verbatim>\<open>nan\<close> compares false with
  everything; any other operand raises \<^verbatim>\<open>TypeError\<close>.\<close>

fun as_number :: "json \<Rightarrow> pyfloat option" where
  "as_number (JInt i) = Some (Finite (of_int i))"
| "as_number (JBool b) = Some (Finite (if b then 1 else 0))"
| "as_number (JFloat f) = Some f"
| "as_number _ = None"

fun float_lt :: "pyfloat \<Rightarrow> pyfloat \<Rightarrow> bool" where
  "float_lt NaN _ = False"
| "float_lt _ NaN = False"
| "float_lt (Finite a) (Finite b) = (a < b)"
| "float_lt NegInf NegInf = False"
| "float_lt NegInf _ = True"
| "float_lt PosInf _ = False"
| "float_lt (Finite a) PosInf = True"
| "float_lt (Finite a) NegInf = False"

fun float_le :: "pyfloat \<Rightarrow> pyfloat \<Rightarrow> bool" where
  "float_le NaN _ = False"
| "float_le _ NaN = False"
| "float_le (Finite a) (Finite b) = (a \<le> b)"
| "float_le NegInf _ = True"
| "float_le PosInf PosInf = True"
| "float_le PosInf _ = False"
| "float_le (Finite a) PosInf = True"
| "float_le (Finite a) NegInf = False"

definition py_ge :: "json \<Rightarrow> int \<Rightarrow> exn + bool" where
  "py_ge x k =
     (case as_number x of
        Some f \<Rightarrow> Inr (float_le (Finite (of_int k)) f)
      | None \<Rightarrow> Inl (TypeError ''>='' x))"

definition py_gt :: "json \<Rightarrow> int \<Rightarrow> exn + bool" where
  "py_gt x k =
     (case as_number x of
        Some f \<Rightarrow> Inr (float_lt (Finite (of_int k)) f)
      | None \<Rightarrow> Inl (TypeError ''>'' x))"

definition py_lt :: "json \<Rightarrow> int \<Rightarrow> exn + bool" where
  "py_lt x k =
     (case as_number x of
        Some f \<Rightarrow> Inr (float_lt f (Finite (of_int k)))
      | None \<Rightarrow> Inl (TypeError ''<'' x))"

section \<open>The derived figures of the executive summary\<close>

text \<open>\<^verbatim>\<open>ContractReviewCrew._determine_overall_risk_level\<close>.\<close>

definition determine_overall_risk_level :: "json \<Rightarrow> exn + string" where
  "determine_overall_risk_level risk_summary =
     ebind (py_get risk_summary ''high_severity_count'' (JInt 0)) (\<lambda>high_risks.
     ebind (py_get risk_summary ''total_risks_identified'' (JInt 0)) (\<lambda>total_risks.
     ebind (py_ge high_risks 3) (\<lambda>c1.
       if c1 then Inr ''HIGH''
       else ebind (py_or (py_ge high_risks 1) (py_ge total_risks 5)) (\<lambda>c2.
         if c2 then Inr ''MEDIUM''
         else ebind (py_ge total_risks 1) (\<lambda>c3.
           if c3 then Inr ''LOW''
           else Inr ''MINIMAL'')))))"

text \<open>The rule as the specification words it, on two integers.\<close>

definition overall_risk_level_spec :: "int \<Rightarrow> int \<Rightarrow> string" where
  "overall_risk_level_spec high_risks total_risks =
     (if high_risks \<ge> 3 then ''HIGH''
      else if high_risks \<ge> 1 \<or> total_risks \<ge> 5 then ''MEDIUM''
      else if total_risks \<ge> 1 then ''LOW''
      else ''MINIMAL'')"

text \<open>An integer field of an upstream dictionary, a missing field being read as 0;
  \<open>None\<close> when the field holds something that is not an integer.\<close>

definition int_field :: "(string \<times> json) list \<Rightarrow> string \<Rightarrow> int option" where
  "int_field kvs key =
     (case map_of kvs key of
        None \<Rightarrow> Some 0
      | Some (JInt i) \<Rightarrow> Some i
      | Some _ \<Rightarrow> None)"

text \<open>\<^verbatim>\<open>ContractReviewCrew._assess_contract_quality\<close>.\<close>

definition assess_contract_quality :: "json \<Rightarrow> json \<Rightarrow> exn + string" where
  "assess_contract_quality clause_summary risk_summary =
     ebind (py_get clause_summary ''coverage_assessment'' (JStr [])) (\<lambda>raw.
     ebind (py_lower raw) (\<lambda>coverage.
     ebind (py_get risk_summary ''overall_risk_score'' (JInt 0)) (\<lambda>risk_score.
     ebind (py_and (Inr (contains ''comprehensive'' coverage)) (py_lt risk_score 3)) (\<lambda>c1.
       if c1 then Inr ''GOOD''
       else ebind (py_and (Inr (contains ''adequate'' coverage)) (py_lt risk_score 5)) (\<lambda>c2.
         if c2 then Inr ''FAIR''
         else Inr ''NEEDS_IMPROVEMENT'')))))"

text \<open>The rule as the specification words it. A text contains a keyword
  case-insensitively when one of its contiguous pieces equals the keyword up to the case
  of its letters; a numeric score is an integer or a float.\<close>

definition ci_equal :: "string \<Rightarrow> string \<Rightarrow> bool" where
  "ci_equal a b = (lower a = lower b)"

definition contains_ci :: "string \<Rightarrow> string \<Rightarrow> bool" where
  "contains_ci keyword text = list_ex (\<lambda>piece. ci_equal piece keyword) (sublists text)"

definition score_below :: "pyfloat \<Rightarrow> int \<Rightarrow> bool" where
  "score_below score k = float_lt score (Finite (of_int k))"

definition contract_quality_spec :: "string \<Rightarrow> pyfloat \<Rightarrow> string" where
  "contract_quality_spec coverage score =
     (if contains_ci ''comprehensive'' coverage \<and> score_below score 3 then ''GOOD''
      else if contains_ci ''adequate'' coverage \<and> score_below score 5 then ''FAIR''
      else ''NEEDS_IMPROVEMENT'')"

text \<open>A string field, a missing field being read as the empty string, and a numeric
  field, a missing field being read as 0; \<open>None\<close> when the field holds something
  else.\<close>

definition str_field :: "(string \<times> json) list \<Rightarrow> string \<Rightarrow> string option" where
  "str_field kvs key =
     (case map_of kvs key of
        None \<Rightarrow> Some []
      | Some (JStr s) \<Rightarrow> Some s
      | Some _ \<Rightarrow> None)"

definition num_field :: "(string \<times> json) list \<Rightarrow> string \<Rightarrow> pyfloat option" where
  "num_field kvs key =
     (case map_of kvs key of
        None \<Rightarrow> Some (Finite 0)
      | Some (JInt i) \<Rightarrow> Some (Finite (of_int i))
      | Some (JFloat f) \<Rightarrow> Some f
      | Some _ \<Rightarrow> None)"

section \<open>The world outside the pipeline\<close>

text \<open>
  Each of the four agents makes one call \<^verbatim>\<open>chat.completions.create\<close> and parses the
  answer with \<^verbatim>\<open>json.loads\<close>. A request is the model, the system message, the prompt
  and the temperature. The prompt is a fixed template, named here by the method that
  owns it, filled with values; the request records the values and not the text they
  are formatted into, which is a function of them.

  \<open>complete\<close> is the call together with the parsing: given the requests made so far
  and the new one, it yields the parsed answer or the exception that the client or
  the parser raised. \<open>builtin_text\<close> is the text that CPython gives the exceptions it
  raises itself, and \<open>repr_text\<close> its rendering of floats, lists and dictionaries.
  The properties below hold whatever these three are.
\<close>

datatype template = DetectClauses | AnalyzeRisks | AssessLanguageClarity | GenerateRedlines

record request =
  model :: string
  system_content :: "string option"
  prompt :: template
  prompt_values :: "json list"
  temperature :: rat

record world =
  complete :: "request list \<Rightarrow> request \<Rightarrow> exn + json"
  builtin_text :: "exn \<Rightarrow> string"
  repr_text :: "json \<Rightarrow> string"

text \<open>\<^verbatim>\<open>str(e)\<close> of a caught exception, and \<^verbatim>\<open>str(v)\<close> of a value inside an
  f-string.\<close>

definition str_exn :: "world \<Rightarrow> exn \<Rightarrow> string" where
  "str_exn w e = (case e of ExternalError text \<Rightarrow> text | _ \<Rightarrow> builtin_text w e)"

definition py_str :: "world \<Rightarrow> json \<Rightarrow> string" where
  "py_str w v =
     (case v of
        JNull \<Rightarrow> ''None''
      | JBool b \<Rightarrow> (if b then ''True'' else ''False'')
      | JInt i \<Rightarrow> str_int i
      | JStr s \<Rightarrow> s
      | _ \<Rightarrow> repr_text w v)"

section \<open>The next steps\<close>

text \<open>\<^verbatim>\<open>ContractReviewCrew._generate_next_steps\<close>.\<close>

definition generate_next_steps :: "world \<Rightarrow> json \<Rightarrow> json \<Rightarrow> exn + string list" where
  "generate_next_steps w risk_results redline_results =
     ebind (py_get risk_results ''overall_risk_assessment'' (JObj [])) (\<lambda>assessment.
     ebind (py_get assessment ''high_severity_count'' (JInt 0)) (\<lambda>high_risks.
     ebind (py_get redline_results ''summary'' (JObj [])) (\<lambda>summary.
     ebind (py_get summary ''critical_changes'' (JInt 0)) (\<lambda>critical_changes.
     ebind (py_gt critical_changes 0) (\<lambda>c1.
     ebind (py_gt high_risks 0) (\<lambda>c2.
       Inr ((if c1
             then [''Address '' @ py_str w critical_changes
                     @ '' critical redline suggestions before proceeding'']
             else [])
          @ (if c2
             then [''Mitigate '' @ py_str w high_risks @ '' high-severity risks identified'']
             else [])
          @ [''Review all redline suggestions with legal counsel'',
             ''Negotiate key terms with counterparty'',
             ''Obtain final legal approval before signing''])))))))"

text \<open>The recipe as the specification words it, on two integer counts.\<close>

definition next_steps_spec :: "int \<Rightarrow> int \<Rightarrow> string list" where
  "next_steps_spec critical_changes high_risks =
     (if critical_changes > 0
      then [''Address '' @ str_int critical_changes
              @ '' critical redline suggestions before proceeding'']
      else [])
   @ (if high_risks > 0
      then [''Mitigate '' @ str_int high_risks @ '' high-severity risks identified'']
      else [])
   @ [''Review all redline suggestions with legal counsel'',
      ''Negotiate key terms with counterparty'',
      ''Obtain final legal approval before signing'']"

text \<open>An integer field of a nested dictionary, the nested dictionary and the field
  each being optional.\<close>

definition nested_int_field ::
  "(string \<times> json) list \<Rightarrow> string \<Rightarrow> string \<Rightarrow> int option" where
  "nested_int_field kvs outer key =
     (case map_of kvs outer of
        None \<Rightarrow> Some 0
      | Some (JObj inner) \<Rightarrow> int_field inner key
      | Some _ \<Rightarrow> None)"

section \<open>The agents\<close>

text \<open>The comprehension \<^verbatim>\<open>[r for r in items if r.get(key, "").lower() == level]\<close>,
  which the source writes four times. It raises at the first item that is not a
  dictionary or whose field is not a string.\<close>

definition has_level :: "string \<Rightarrow> string \<Rightarrow> json \<Rightarrow> exn + bool" where
  "has_level key level r =
     ebind (py_get r key (JStr [])) (\<lambda>v.
     ebind (py_lower v) (\<lambda>l. Inr (l = level)))"

fun select_level :: "string \<Rightarrow> string \<Rightarrow> json list \<Rightarrow> exn + json list" where
  "select_level key level [] = Inr []"
| "select_level key level (r # rs) =
     (case has_level key level r of
        Inl e \<Rightarrow> Inl e
      | Inr keep \<Rightarrow>
          (case select_level key level rs of
             Inl e \<Rightarrow> Inl e
           | Inr kept \<Rightarrow> Inr (if keep then r # kept else kept)))"

text \<open>The values of the lines
  \<^verbatim>\<open>f"- {clause.get('clause_type', 'Unknown')}: {clause.get('clause_text', '')[:n]}..."\<close>
  for the clauses of \<^verbatim>\<open>detected_clauses[:limit]\<close>.\<close>

fun clause_lines :: "nat \<Rightarrow> json list \<Rightarrow> exn + json list" where
  "clause_lines n [] = Inr []"
| "clause_lines n (clause # rest) =
     (case ebind (py_get clause ''clause_type'' (JStr ''Unknown'')) (\<lambda>clause_type.
           ebind (py_get clause ''clause_text'' (JStr [])) (\<lambda>clause_text.
           ebind (py_slice n clause_text) (\<lambda>shown. Inr (JArr [clause_type, shown])))) of
        Inl e \<Rightarrow> Inl e
      | Inr line \<Rightarrow>
          (case clause_lines n rest of
             Inl e \<Rightarrow> Inl e
           | Inr lines \<Rightarrow> Inr (line # lines)))"

definition clause_context :: "nat \<Rightarrow> nat \<Rightarrow> json \<Rightarrow> exn + json list" where
  "clause_context n limit detected_clauses =
     ebind (py_slice limit detected_clauses) (\<lambda>first.
     ebind (py_iter first) (\<lambda>clauses. clause_lines n clauses))"

text \<open>The values of the lines
  \<^verbatim>\<open>f"- {risk.get('risk_type', 'Unknown Risk')}: {risk.get('risk_description', '')}"\<close>.\<close>

fun risk_lines :: "json list \<Rightarrow> exn + json list" where
  "risk_lines [] = Inr []"
| "risk_lines (risk # rest) =
     (case ebind (py_get risk ''risk_type'' (JStr ''Unknown Risk'')) (\<lambda>risk_type.
           ebind (py_get risk ''risk_description'' (JStr [])) (\<lambda>description.
           Inr (JArr [risk_type, description]))) of
        Inl e \<Rightarrow> Inl e
      | Inr line \<Rightarrow>
          (case risk_lines rest of
             Inl e \<Rightarrow> Inl e
           | Inr lines \<Rightarrow> Inr (line # lines)))"

text \<open>One request and the parsing of its answer; the request joins the record of calls whether
  or not it succeeds.\<close>

definition ask :: "world \<Rightarrow> request list \<Rightarrow> request \<Rightarrow> (exn + json) \<times> request list" where
  "ask w calls req = (complete w calls req, calls @ [req])"

text \<open>\<^verbatim>\<open>ClauseDetectorAgent.detect_clauses\<close>.\<close>

definition detect_clauses_failed :: "world \<Rightarrow> exn \<Rightarrow> json" where
  "detect_clauses_failed w e =
     JObj [(''error'', JStr (''Failed to detect clauses: '' @ str_exn w e)),
           (''detected_clauses'', JArr []),
           (''clause_summary'',
              JObj [(''total_clauses_found'', JInt 0),
                    (''high_importance_count'', JInt 0),
                    (''coverage_assessment'', JStr ''Analysis failed due to error'')])]"

definition detect_clauses_request :: "string \<Rightarrow> request" where
  "detect_clauses_request contract_text =
     \<lparr>model = ''gpt-4o-mini'',
      system_content = Some
        ''You are a legal expert specializing in contract analysis and clause detection.'',
      prompt = DetectClauses,
      prompt_values = [JStr contract_text],
      temperature = 1 / 10\<rparr>"

definition detect_clauses :: "world \<Rightarrow> request list \<Rightarrow> string \<Rightarrow> json \<times> request list" where
  "detect_clauses w calls contract_text =
     (case ask w calls (detect_clauses_request contract_text) of
        (Inr result, calls') \<Rightarrow> (result, calls')
      | (Inl e, calls') \<Rightarrow> (detect_clauses_failed w e, calls'))"

text \<open>\<^verbatim>\<open>RiskAnalysisAgent.analyze_risks\<close>. An exception while the prompt is being built
  is caught by the same handler as one of the call, and then no call is made.\<close>

definition analyze_risks_failed :: "world \<Rightarrow> exn \<Rightarrow> json" where
  "analyze_risks_failed w e =
     JObj [(''error'', JStr (''Failed to analyze risks: '' @ str_exn w e)),
           (''risk_analysis'', JArr []),
           (''overall_risk_assessment'',
              JObj [(''total_risks_identified'', JInt 0),
                    (''high_severity_count'', JInt 0),
                    (''medium_severity_count'', JInt 0),
                    (''low_severity_count'', JInt 0),
                    (''overall_risk_score'', JInt 0),
                    (''key_concerns'', JArr [JStr ''Risk analysis failed due to error'']),
                    (''recommended_action'',
                       JStr ''Manual review required - automated analysis unavailable'')])]"

definition analyze_risks_request :: "json list \<Rightarrow> string \<Rightarrow> request" where
  "analyze_risks_request context contract_text =
     \<lparr>model = ''gpt-4o'',
      system_content = Some
        ''You are a legal risk assessment expert with expertise in contract analysis and risk mitigation.'',
      prompt = AnalyzeRisks,
      prompt_values = context @ [JStr (take 3000 contract_text)],
      temperature = 1 / 10\<rparr>"

definition analyze_risks ::
  "world \<Rightarrow> request list \<Rightarrow> string \<Rightarrow> json \<Rightarrow> json \<times> request list" where
  "analyze_risks w calls contract_text detected_clauses =
     (case clause_context 200 10 detected_clauses of
        Inl e \<Rightarrow> (analyze_risks_failed w e, calls)
      | Inr context \<Rightarrow>
          (case ask w calls (analyze_risks_request context contract_text) of
             (Inr result, calls') \<Rightarrow> (result, calls')
           | (Inl e, calls') \<Rightarrow> (analyze_risks_failed w e, calls')))"

text \<open>\<^verbatim>\<open>RiskAnalysisAgent.assess_language_clarity\<close>.\<close>

definition assess_language_clarity_failed :: "world \<Rightarrow> exn \<Rightarrow> json" where
  "assess_language_clarity_failed w e =
     JObj [(''error'', JStr (''Failed to assess language clarity: '' @ str_exn w e)),
           (''clarity_issues'', JArr []),
           (''clarity_score'', JInt 0),
           (''summary'', JStr ''Language clarity analysis failed'')]"

definition assess_language_clarity_request :: "string \<Rightarrow> request" where
  "assess_language_clarity_request contract_text =
     \<lparr>model = ''gpt-4o'',
      system_content = None,
      prompt = AssessLanguageClarity,
      prompt_values = [JStr (take 2000 contract_text)],
      temperature = 1 / 10\<rparr>"

definition assess_language_clarity ::
  "world \<Rightarrow> request list \<Rightarrow> string \<Rightarrow> json \<times> request list" where
  "assess_language_clarity w calls contract_text =
     (case ask w calls (assess_language_clarity_request contract_text) of
        (Inr result, calls') \<Rightarrow> (result, calls')
      | (Inl e, calls') \<Rightarrow> (assess_language_clarity_failed w e, calls'))"

text \<open>\<^verbatim>\<open>RedlineSuggesterAgent.generate_redlines\<close>.\<close>

definition generate_redlines_failed :: "world \<Rightarrow> exn \<Rightarrow> json" where
  "generate_redlines_failed w e =
     JObj [(''error'', JStr (''Failed to generate redlines: '' @ str_exn w e)),
           (''redline_suggestions'', JArr []),
           (''new_clauses_needed'', JArr []),
           (''negotiation_strategy'',
              JObj [(''key_positions'',
                       JArr [JStr ''Manual review required due to analysis error'']),
                    (''fallback_options'', JArr []),
                    (''deal_breakers'', JArr [])]),
           (''summary'',
              JObj [(''total_suggestions'', JInt 0),
                    (''critical_changes'', JInt 0),
                    (''estimated_risk_reduction'',
                       JStr ''Unable to assess - analysis failed'')])]"

definition redline_context :: "json \<Rightarrow> json \<Rightarrow> exn + json list" where
  "redline_context risk_analysis detected_clauses =
     ebind (py_get risk_analysis ''risk_analysis'' (JArr [])) (\<lambda>risks.
     ebind (py_iter risks) (\<lambda>items.
     ebind (select_level ''severity_level'' ''high'' items) (\<lambda>high_risks.
     ebind (risk_lines (take 5 high_risks)) (\<lambda>risk_context.
     ebind (clause_context 150 8 detected_clauses) (\<lambda>clause_context.
     Inr (risk_context @ clause_context))))))"

definition generate_redlines_request :: "json list \<Rightarrow> string \<Rightarrow> request" where
  "generate_redlines_request context contract_text =
     \<lparr>model = ''gpt-4o-mini'',
      system_content = Some
        ''You are an expert contract attorney specializing in protective redlining and risk mitigation.'',
      prompt = GenerateRedlines,
      prompt_values = context @ [JStr (take 3000 contract_text)],
      temperature = 2 / 10\<rparr>"

definition generate_redlines ::
  "world \<Rightarrow> request list \<Rightarrow> string \<Rightarrow> json \<Rightarrow> json \<Rightarrow> json \<times> request list" where
  "generate_redlines w calls contract_text risk_analysis detected_clauses =
     (case redline_context risk_analysis detected_clauses of
        Inl e \<Rightarrow> (generate_redlines_failed w e, calls)
      | Inr context \<Rightarrow>
          (case ask w calls (generate_redlines_request context contract_text) of
             (Inr result, calls') \<Rightarrow> (result, calls')
           | (Inl e, calls') \<Rightarrow> (generate_redlines_failed w e, calls')))"

text \<open>\<^verbatim>\<open>RedlineSuggesterAgent.prioritize_changes\<close>: the three comprehensions in the
  order in which Python evaluates them, the plan, and the handler around both.\<close>

definition prioritization_plan :: "json list \<Rightarrow> json list \<Rightarrow> json list \<Rightarrow> nat \<Rightarrow> json" where
  "prioritization_plan critical_changes high_changes medium_changes total_items =
     JObj [(''implementation_phases'',
              JObj [(''phase_1_critical'',
                       JObj [(''changes'', JArr critical_changes),
                             (''timeline'', JStr ''Address before any signing''),
                             (''negotiation_approach'', JStr ''Non-negotiable positions'')]),
                    (''phase_2_high'',
                       JObj [(''changes'', JArr high_changes),
                             (''timeline'', JStr ''Primary negotiation focus''),
                             (''negotiation_approach'',
                                JStr ''Strong preference, willing to trade'')]),
                    (''phase_3_medium'',
                       JObj [(''changes'', JArr medium_changes),
                             (''timeline'', JStr ''Secondary negotiation items''),
                             (''negotiation_approach'', JStr ''Nice to have improvements'')])]),
           (''negotiation_roadmap'',
              JObj [(''must_have_count'', JInt (int (length critical_changes))),
                    (''high_priority_count'', JInt (int (length high_changes))),
                    (''total_items'', JInt (int total_items))])]"

definition prioritize_changes_failed :: "world \<Rightarrow> exn \<Rightarrow> json" where
  "prioritize_changes_failed w e =
     JObj [(''error'', JStr (''Failed to prioritize changes: '' @ str_exn w e)),
           (''implementation_phases'', JObj []),
           (''negotiation_roadmap'', JObj [])]"

definition prioritize_changes :: "world \<Rightarrow> json \<Rightarrow> json" where
  "prioritize_changes w redline_suggestions =
     (case ebind (py_iter redline_suggestions) (\<lambda>items.
           ebind (select_level ''priority'' ''critical'' items) (\<lambda>critical_changes.
           ebind (select_level ''priority'' ''high'' items) (\<lambda>high_changes.
           ebind (select_level ''priority'' ''medium'' items) (\<lambda>medium_changes.
           ebind (py_len redline_suggestions) (\<lambda>total_items.
           Inr (prioritization_plan critical_changes high_changes medium_changes total_items)))))) of
        Inr plan \<Rightarrow> plan
      | Inl e \<Rightarrow> prioritize_changes_failed w e)"

text \<open>Reading the plan: the value at a path of keys, and the items of a bucket.\<close>

fun at_path :: "string list \<Rightarrow> json \<Rightarrow> json option" where
  "at_path [] v = Some v"
| "at_path (key # path) (JObj kvs) =
     (case map_of kvs key of None \<Rightarrow> None | Some v \<Rightarrow> at_path path v)"
| "at_path (key # path) _ = None"

definition bucket :: "string \<Rightarrow> json \<Rightarrow> json list option" where
  "bucket phase plan =
     (case at_path [''implementation_phases'', phase, ''changes''] plan of
        Some (JArr items) \<Rightarrow> Some items
      | _ \<Rightarrow> None)"

text \<open>The specification's reading of a suggestion record: its priority matches a level
  when the field is a string equal to the level up to the case of its letters. A
  record is well-formed when it is a dictionary whose priority, if present, is a
  string.\<close>

definition priority_matches :: "string \<Rightarrow> json \<Rightarrow> bool" where
  "priority_matches level r =
     (case r of
        JObj kvs \<Rightarrow>
          (case map_of kvs ''priority'' of Some (JStr p) \<Rightarrow> ci_equal p level | _ \<Rightarrow> False)
      | _ \<Rightarrow> False)"

definition suggestion_record :: "json \<Rightarrow> bool" where
  "suggestion_record r =
     (case r of
        JObj kvs \<Rightarrow> (case map_of kvs ''priority'' of None \<Rightarrow> True | Some (JStr p) \<Rightarrow> True | _ \<Rightarrow> False)
      | _ \<Rightarrow> False)"

section \<open>The orchestrator\<close>

text \<open>\<^verbatim>\<open>ContractReviewCrew._generate_executive_summary\<close>, with its own handler.\<close>

definition generate_executive_summary :: "world \<Rightarrow> json \<Rightarrow> json \<Rightarrow> json \<Rightarrow> json" where
  "generate_executive_summary w clause_results risk_results redline_results =
     (case ebind (py_get clause_results ''clause_summary'' (JObj [])) (\<lambda>clause_summary.
           ebind (py_get risk_results ''overall_risk_assessment'' (JObj [])) (\<lambda>risk_summary.
           ebind (py_get redline_results ''summary'' (JObj [])) (\<lambda>redline_summary.
           ebind (py_get clause_summary ''total_clauses_found'' (JInt 0)) (\<lambda>clauses_analyzed.
           ebind (py_get clause_summary ''high_importance_count'' (JInt 0)) (\<lambda>high_importance.
           ebind (py_get risk_summary ''total_risks_identified'' (JInt 0)) (\<lambda>risks_identified.
           ebind (py_get risk_summary ''high_severity_count'' (JInt 0)) (\<lambda>high_severity.
           ebind (py_get redline_summary ''total_suggestions'' (JInt 0)) (\<lambda>suggestions.
           ebind (py_get redline_summary ''critical_changes'' (JInt 0)) (\<lambda>critical.
           ebind (determine_overall_risk_level risk_summary) (\<lambda>risk_level.
           ebind (assess_contract_quality clause_summary risk_summary) (\<lambda>quality.
           ebind (py_get risk_summary ''recommended_action'' (JStr ''Review recommended''))
             (\<lambda>action.
           ebind (py_get risk_summary ''key_concerns'' (JArr [])) (\<lambda>concerns.
           Inr (JObj [(''contract_overview'',
                         JObj [(''clauses_analyzed'', clauses_analyzed),
                               (''high_importance_clauses'', high_importance),
                               (''risks_identified'', risks_identified),
                               (''high_severity_risks'', high_severity),
                               (''redline_suggestions'', suggestions),
                               (''critical_changes_needed'', critical)]),
                      (''overall_assessment'',
                         JObj [(''risk_level'', JStr risk_level),
                               (''contract_quality'', JStr quality),
                               (''recommended_action'', action),
                               (''key_concerns'', concerns)])])))))))))))))) of
        Inr summary \<Rightarrow> summary
      | Inl e \<Rightarrow>
          JObj [(''error'', JStr (''Failed to generate executive summary: '' @ str_exn w e)),
                (''contract_overview'', JObj []),
                (''overall_assessment'', JObj [])])"

text \<open>The dictionaries that \<^verbatim>\<open>review_contract\<close> puts in the place of a failed risk
  analysis and of a failed redline generation.\<close>

definition empty_risk_results :: json where
  "empty_risk_results = JObj [(''risk_analysis'', JArr []), (''overall_risk_assessment'', JObj [])]"

definition empty_redline_results :: json where
  "empty_redline_results = JObj [(''redline_suggestions'', JArr []), (''new_clauses_needed'', JArr [])]"

text \<open>
  \<^verbatim>\<open>ContractReviewCrew.review_contract\<close>. \<open>review_steps\<close> is the body of its
  \<^verbatim>\<open>try\<close>: the value it returns, or the exception that leaves it, together with the
  requests made up to then. The four agents catch their own exceptions and return a
  value; the membership tests, \<^verbatim>\<open>.get\<close>, \<^verbatim>\<open>len\<close> and \<^verbatim>\<open>_generate_next_steps\<close> in
  between can raise. \<open>review_contract\<close> adds the check of the text and the handler.

  These two definitions are the function on a console that writes every line: of the
  \<^verbatim>\<open>print\<close> calls they keep only the expressions that the calls evaluate, since
  these can raise (\<^verbatim>\<open>len(detected_clauses)\<close> and the \<^verbatim>\<open>['error']\<close> of a failed
  answer). The function with its \<^verbatim>\<open>print\<close> calls, on any console, follows them as
  \<open>review_contract_printed\<close>.
\<close>

definition review_report :: "json \<Rightarrow> json \<Rightarrow> json \<Rightarrow> json \<Rightarrow> json \<Rightarrow> json \<Rightarrow> string list \<Rightarrow> json" where
  "review_report clause_results risk_results clarity_results redline_results prioritization
       summary next_steps =
     JObj [(''success'', JBool True),
           (''contract_analysis'',
              JObj [(''clause_detection'', clause_results),
                    (''risk_analysis'', risk_results),
                    (''language_clarity'', clarity_results),
                    (''redline_suggestions'', redline_results),
                    (''change_prioritization'', prioritization)]),
           (''executive_summary'', summary),
           (''next_steps'', JArr (map JStr next_steps))]"

definition review_steps :: "world \<Rightarrow> string \<Rightarrow> (exn + json) \<times> request list" where
  "review_steps w contract_text =
     (let (clause_results, calls1) = detect_clauses w [] contract_text in
      case py_in ''error'' clause_results of
        Inl e \<Rightarrow> (Inl e, calls1)
      | Inr True \<Rightarrow>
          (ebind (py_item clause_results ''error'') (\<lambda>error.
             Inr (JObj [(''error'', error), (''success'', JBool False)])), calls1)
      | Inr False \<Rightarrow>
          (case ebind (py_get clause_results ''detected_clauses'' (JArr [])) (\<lambda>detected_clauses.
                ebind (py_len detected_clauses) (\<lambda>found. Inr detected_clauses)) of
             Inl e \<Rightarrow> (Inl e, calls1)
           | Inr detected_clauses \<Rightarrow>
               (let (risk_answer, calls2) = analyze_risks w calls1 contract_text detected_clauses in
                case ebind (py_in ''error'' risk_answer) (\<lambda>failed.
                     ebind (if failed
                            then ebind (py_item risk_answer ''error'') (\<lambda>shown.
                                   Inr empty_risk_results)
                            else Inr risk_answer) (\<lambda>risk_results.
                     ebind (py_get risk_results ''risk_analysis'' (JArr [])) (\<lambda>risks.
                     ebind (py_len risks) (\<lambda>risk_count. Inr risk_results)))) of
                  Inl e \<Rightarrow> (Inl e, calls2)
                | Inr risk_results \<Rightarrow>
                    (let (clarity_results, calls3) =
                           assess_language_clarity w calls2 contract_text;
                         (redline_answer, calls4) =
                           generate_redlines w calls3 contract_text risk_results detected_clauses
                     in
                     (ebind (py_in ''error'' redline_answer) (\<lambda>failed.
                      ebind (if failed
                             then ebind (py_item redline_answer ''error'') (\<lambda>shown.
                                    Inr empty_redline_results)
                             else Inr redline_answer) (\<lambda>redline_results.
                      ebind (py_get redline_results ''redline_suggestions'' (JArr []))
                        (\<lambda>suggestions.
                      ebind (py_len suggestions) (\<lambda>suggestions_count.
                      let prioritization = prioritize_changes w suggestions;
                          summary = generate_executive_summary w
                                      clause_results risk_results redline_results
                      in
                      ebind (generate_next_steps w risk_results redline_results) (\<lambda>next_steps.
                      Inr (review_report clause_results risk_results clarity_results
                             redline_results prioritization summary next_steps)))))),
                      calls4)))))"

definition review_contract :: "world \<Rightarrow> string \<Rightarrow> json \<times> request list" where
  "review_contract w contract_text =
     (if contract_text = [] \<or> strip contract_text = []
      then (JObj [(''error'', JStr ''No contract text provided for review''),
                  (''success'', JBool False)], [])
      else
        (case review_steps w contract_text of
           (Inr result, calls) \<Rightarrow> (result, calls)
         | (Inl e, calls) \<Rightarrow>
             (JObj [(''error'', JStr (''Contract review failed: '' @ str_exn w e)),
                    (''success'', JBool False)], calls)))"

section \<open>The orchestrator and its console\<close>

text \<open>
  \<^verbatim>\<open>review_contract\<close> prints its progress. A printed line is named here by the
  \<^verbatim>\<open>print\<close> statement that writes it and the value that fills it; the console says
  what \<^verbatim>\<open>print\<close> does with a line: nothing that the program sees, or an exception
  (a standard output that cannot encode the line, or is closed).

  Every \<^verbatim>\<open>print\<close> but one stands inside the \<^verbatim>\<open>try\<close>, so that what it raises
  reaches the handler. The \<^verbatim>\<open>print\<close> of the handler itself (line 136) stands
  outside: what it raises leaves \<^verbatim>\<open>review_contract\<close>. So the function returns a
  value or raises, together with the requests made up to then. The check of a blank
  text prints nothing.
\<close>

datatype line =
    StartingReview
  | Separator
  | DetectingClauses
  | AnalyzingRisks
  | AssessingClarity
  | GeneratingRedlines
  | PrioritizingChanges
  | ClauseDetectionFailed json
  | FoundClauses nat
  | RiskAnalysisFailed json
  | IdentifiedRisks nat
  | RedlineGenerationFailed json
  | GeneratedSuggestions nat
  | ReviewCompleted
  | ReviewFailed string

type_synonym console = "line \<Rightarrow> exn option"

definition print_then :: "console \<Rightarrow> line \<Rightarrow> exn + 'a \<Rightarrow> exn + 'a" where
  "print_then out l rest = (case out l of Some e \<Rightarrow> Inl e | None \<Rightarrow> rest)"

definition review_steps_printed ::
  "console \<Rightarrow> world \<Rightarrow> string \<Rightarrow> (exn + json) \<times> request list" where
  "review_steps_printed out w contract_text =
     (case print_then out StartingReview
             (print_then out Separator
             (print_then out DetectingClauses (Inr ()))) of
        Inl e \<Rightarrow> (Inl e, [])
      | Inr started \<Rightarrow>
     (let (clause_results, calls1) = detect_clauses w [] contract_text in
      case py_in ''error'' clause_results of
        Inl e \<Rightarrow> (Inl e, calls1)
      | Inr True \<Rightarrow>
          (ebind (py_item clause_results ''error'') (\<lambda>error.
             print_then out (ClauseDetectionFailed error)
               (Inr (JObj [(''error'', error), (''success'', JBool False)]))), calls1)
      | Inr False \<Rightarrow>
          (case ebind (py_get clause_results ''detected_clauses'' (JArr [])) (\<lambda>detected_clauses.
                ebind (py_len detected_clauses) (\<lambda>found.
                print_then out (FoundClauses found)
                  (print_then out AnalyzingRisks (Inr detected_clauses)))) of
             Inl e \<Rightarrow> (Inl e, calls1)
           | Inr detected_clauses \<Rightarrow>
               (let (risk_answer, calls2) = analyze_risks w calls1 contract_text detected_clauses in
                case ebind (py_in ''error'' risk_answer) (\<lambda>failed.
                     ebind (if failed
                            then ebind (py_item risk_answer ''error'') (\<lambda>shown.
                                   print_then out (RiskAnalysisFailed shown)
                                     (Inr empty_risk_results))
                            else Inr risk_answer) (\<lambda>risk_results.
                     ebind (py_get risk_results ''risk_analysis'' (JArr [])) (\<lambda>risks.
                     ebind (py_len risks) (\<lambda>risk_count.
                     print_then out (IdentifiedRisks risk_count)
                       (print_then out AssessingClarity (Inr risk_results)))))) of
                  Inl e \<Rightarrow> (Inl e, calls2)
                | Inr risk_results \<Rightarrow>
                    (let (clarity_results, calls3) =
                           assess_language_clarity w calls2 contract_text
                     in
                     case print_then out GeneratingRedlines (Inr ()) of
                       Inl e \<Rightarrow> (Inl e, calls3)
                     | Inr announced \<Rightarrow>
                    (let (redline_answer, calls4) =
                           generate_redlines w calls3 contract_text risk_results detected_clauses
                     in
                     (ebind (py_in ''error'' redline_answer) (\<lambda>failed.
                      ebind (if failed
                             then ebind (py_item redline_answer ''error'') (\<lambda>shown.
                                    print_then out (RedlineGenerationFailed shown)
                                      (Inr empty_redline_results))
                             else Inr redline_answer) (\<lambda>redline_results.
                      ebind (py_get redline_results ''redline_suggestions'' (JArr []))
                        (\<lambda>suggestions.
                      ebind (py_len suggestions) (\<lambda>suggestions_count.
                      print_then out (GeneratedSuggestions suggestions_count)
                        (print_then out PrioritizingChanges
                      (let prioritization = prioritize_changes w suggestions;
                           summary = generate_executive_summary w
                                       clause_results risk_results redline_results
                       in
                       ebind (generate_next_steps w risk_results redline_results) (\<lambda>next_steps.
                       print_then out ReviewCompleted
                         (Inr (review_report clause_results risk_results clarity_results
                                 redline_results prioritization summary next_steps))))))))),
                      calls4)))))))"

definition review_contract_printed ::
  "console \<Rightarrow> world \<Rightarrow> string \<Rightarrow> (exn + json) \<times> request list" where
  "review_contract_printed out w contract_text =
     (if contract_text = [] \<or> strip contract_text = []
      then (Inr (JObj [(''error'', JStr ''No contract text provided for review''),
                       (''success'', JBool False)]), [])
      else
        (case review_steps_printed out w contract_text of
           (Inr result, calls) \<Rightarrow> (Inr result, calls)
         | (Inl e, calls) \<Rightarrow>
             (let error_msg = ''Contract review failed: '' @ str_exn w e in
              print_then out (ReviewFailed error_msg)
                (Inr (JObj [(''error'', JStr error_msg), (''success'', JBool False)])),
              calls)))"

section \<open>Worlds and answers used in the examples\<close>

text \<open>The texts that CPython 3.11 gives the exceptions it raises itself.\<close>

definition quoted :: "string \<Rightarrow> string" where
  "quoted s = CHR 0x27 # s @ [CHR 0x27]"

fun type_name :: "json \<Rightarrow> string" where
  "type_name JNull = ''NoneType''"
| "type_name (JBool b) = ''bool''"
| "type_name (JInt i) = ''int''"
| "type_name (JFloat f) = ''float''"
| "type_name (JStr s) = ''str''"
| "type_name (JArr xs) = ''list''"
| "type_name (JObj kvs) = ''dict''"

fun cpython_text :: "exn \<Rightarrow> string" where
  "cpython_text (AttributeError v attribute) =
     quoted (type_name v) @ '' object has no attribute '' @ quoted attribute"
| "cpython_text (TypeError operation v) =
     (if operation \<in> set [''>='', ''>'', ''<'']
      then quoted operation @ '' not supported between instances of ''
             @ quoted (type_name v) @ '' and '' @ quoted ''int''
      else if operation = ''len'' then ''object of type '' @ quoted (type_name v) @ '' has no len()''
      else if operation = ''iter'' then quoted (type_name v) @ '' object is not iterable''
      else if operation = ''in''
      then ''argument of type '' @ quoted (type_name v) @ '' is not iterable''
      else if operation = ''[]''
      then (case v of
              JArr xs \<Rightarrow> ''list indices must be integers or slices, not str''
            | JStr s \<Rightarrow> ''string indices must be integers, not '' @ quoted ''str''
            | _ \<Rightarrow> quoted (type_name v) @ '' object is not subscriptable'')
      else (case v of
              JObj kvs \<Rightarrow> ''unhashable type: '' @ quoted ''slice''
            | _ \<Rightarrow> quoted (type_name v) @ '' object is not subscriptable''))"
| "cpython_text (KeyError key) = quoted key"
| "cpython_text (ExternalError message) = message"

text \<open>A world whose client answers by the template of the prompt alone, the world
  whose client cannot be reached, and the world whose client always gives the same
  answer.\<close>

definition scripted :: "(template \<Rightarrow> exn + json) \<Rightarrow> world" where
  "scripted answers =
     \<lparr>complete = (\<lambda>calls req. answers (prompt req)),
      builtin_text = cpython_text,
      repr_text = (\<lambda>v. ''...'')\<rparr>"

definition offline :: world where
  "offline = scripted (\<lambda>t. Inl (ExternalError ''Connection error.''))"

definition answering :: "json \<Rightarrow> world" where
  "answering v = scripted (\<lambda>t. Inr v)"

definition sample_clauses :: json where
  "sample_clauses =
     JObj [(''detected_clauses'',
              JArr [JObj [(''clause_type'', JStr ''Termination''),
                          (''clause_text'', JStr ''Either party may terminate on notice.''),
                          (''location_context'', JStr ''Section 9''),
                          (''importance_level'', JStr ''High'')]]),
           (''clause_summary'',
              JObj [(''total_clauses_found'', JInt 1),
                    (''high_importance_count'', JInt 1),
                    (''coverage_assessment'', JStr ''Adequate coverage'')])]"



text \<open>Only the risk analysis times out; the other answers are as the prompts ask.\<close>

fun risk_analysis_down :: "template \<Rightarrow> exn + json" where
  "risk_analysis_down DetectClauses = Inr sample_clauses"
| "risk_analysis_down AnalyzeRisks = Inl (ExternalError ''Request timed out.'')"
| "risk_analysis_down AssessLanguageClarity = Inr (JObj [(''clarity_score'', JInt 7)])"
| "risk_analysis_down GenerateRedlines =
     Inr (JObj [(''redline_suggestions'',
                   JArr [JObj [(''change_type'', JStr ''add''), (''priority'', JStr ''Critical'')]]),
                (''summary'', JObj [(''total_suggestions'', JInt 1),
                                    (''critical_changes'', JInt 1)])])"

text \<open>The console that writes every line, and a console whose encoding is ASCII: it
  writes the two lines without an emoji and answers every other line with the text of
  CPython's \<^verbatim>\<open>UnicodeEncodeError\<close> for the first characters that it cannot
  encode.\<close>

definition writing :: console where
  "writing l = None"

definition cannot_encode :: "string \<Rightarrow> string \<Rightarrow> exn" where
  "cannot_encode what position =
     ExternalError (quoted ''ascii'' @ '' codec can't encode '' @ what @ '' in position ''
                    @ position @ '': ordinal not in range(128)'')"

definition escaped :: "string \<Rightarrow> string" where
  "escaped code = ''character '' @ quoted (CHR 0x5C # code)"

fun ascii_console :: console where
  "ascii_console StartingReview = None"
| "ascii_console Separator = None"
| "ascii_console DetectingClauses = Some (cannot_encode (escaped ''U0001f50d'') ''1'')"
| "ascii_console (ClauseDetectionFailed error) = Some (cannot_encode (escaped ''u274c'') ''0'')"
| "ascii_console (FoundClauses n) = Some (cannot_encode (escaped ''u2705'') ''0'')"
| "ascii_console AnalyzingRisks = Some (cannot_encode ''characters'' ''1-2'')"
| "ascii_console (RiskAnalysisFailed error) = Some (cannot_encode (escaped ''u274c'') ''0'')"
| "ascii_console (IdentifiedRisks n) = Some (cannot_encode (escaped ''u2705'') ''0'')"
| "ascii_console AssessingClarity = Some (cannot_encode (escaped ''U0001f4dd'') ''1'')"
| "ascii_console GeneratingRedlines = Some (cannot_encode ''characters'' ''1-2'')"
| "ascii_console (RedlineGenerationFailed error) = Some (cannot_encode (escaped ''u274c'') ''0'')"
| "ascii_console (GeneratedSuggestions n) = Some (cannot_encode (escaped ''u2705'') ''0'')"
| "ascii_console PrioritizingChanges = Some (cannot_encode (escaped ''U0001f4ca'') ''1'')"
| "ascii_console ReviewCompleted = Some (cannot_encode (escaped ''u2705'') ''1'')"
| "ascii_console (ReviewFailed message) = Some (cannot_encode (escaped ''u274c'') ''0'')"

section \<open>Shapes of results\<close>

text \<open>The outcome that the specification promises for a text that is not blank:
  \<open>success\<close> true with the five stage slots under \<^verbatim>\<open>contract_analysis\<close>, or
  \<open>success\<close> false with an error that is a string and not empty.\<close>

definition five_slots :: "json \<Rightarrow> bool" where
  "five_slots analysis =
     list_all (\<lambda>slot. at_path [slot] analysis \<noteq> None)
       [''clause_detection'', ''risk_analysis'', ''language_clarity'',
        ''redline_suggestions'', ''change_prioritization'']"

definition promised_outcome :: "json \<Rightarrow> bool" where
  "promised_outcome result =
     (case at_path [''success''] result of
        Some (JBool True) \<Rightarrow>
          (case at_path [''contract_analysis''] result of
             Some analysis \<Rightarrow> five_slots analysis
           | None \<Rightarrow> False)
      | Some (JBool False) \<Rightarrow>
          (case at_path [''error''] result of
             Some (JStr message) \<Rightarrow> message \<noteq> []
           | _ \<Rightarrow> False)
      | _ \<Rightarrow> False)"

text \<open>The example of the specification, and for one item the number of buckets that
  hold it; an item has a named priority when it matches one of the three levels.\<close>

definition spec_suggestions :: "json list" where
  "spec_suggestions =
     [JObj [(''priority'', JStr ''Critical'')],
      JObj [(''priority'', JStr ''High'')],
      JObj [(''priority'', JStr ''low'')],
      JObj [(''priority'', JStr ''HIGH'')]]"

definition holding :: "json \<Rightarrow> json list list \<Rightarrow> nat" where
  "holding r buckets = length (filter (\<lambda>b. r \<in> set b) buckets)"

definition named_priority :: "json \<Rightarrow> bool" where
  "named_priority r =
     (priority_matches ''critical'' r \<or> priority_matches ''high'' r
      \<or> priority_matches ''medium'' r)"










text \<open>The slot of a stage in a report, and the prompt values of the sample clauses.\<close>

definition review_slot :: "string \<Rightarrow> json \<Rightarrow> json option" where
  "review_slot stage result = at_path [''contract_analysis'', stage] result"


section \<open>Properties\<close>

lemma ebind_simps [simp]:
  "ebind (Inl e) f = Inl e"
  "ebind (Inr x) f = f x"
  by (simp_all add: ebind_def)

lemma int_field_get:
  "int_field kvs key = Some i \<Longrightarrow> py_get (JObj kvs) key (JInt 0) = Inr (JInt i)"
  by (auto simp: int_field_def py_get_def split: option.splits json.splits)

lemma py_ge_int [simp]: "py_ge (JInt i) k = Inr (k \<le> i)"
  by (simp add: py_ge_def)

lemma py_gt_int [simp]: "py_gt (JInt i) k = Inr (k < i)"
  by (simp add: py_gt_def)

lemma py_lt_int [simp]: "py_lt (JInt i) k = Inr (i < k)"
  by (simp add: py_lt_def)

text \<open>
  C7. For integer counts, a missing count being 0, the overall risk level is HIGH when
  the high-severity count is at least 3, otherwise MEDIUM when the high-severity count is
  at least 1 or the total is at least 5, otherwise LOW when the total is at least 1,
  otherwise MINIMAL, the first matching condition deciding.
\<close>

theorem overall_risk_level_rule:
  assumes "int_field risk_summary ''high_severity_count'' = Some high_risks"
    and "int_field risk_summary ''total_risks_identified'' = Some total_risks"
  shows "determine_overall_risk_level (JObj risk_summary)
           = Inr (overall_risk_level_spec high_risks total_risks)"
  using int_field_get [OF assms(1)] int_field_get [OF assms(2)]
  by (simp add: determine_overall_risk_level_def overall_risk_level_spec_def py_or_def)

theorem overall_risk_level_rule_witness:
  "determine_overall_risk_level (JObj []) = Inr ''MINIMAL''
   \<and> determine_overall_risk_level (JObj [(''total_risks_identified'', JInt 1)]) = Inr ''LOW''
   \<and> determine_overall_risk_level (JObj [(''total_risks_identified'', JInt 5)]) = Inr ''MEDIUM''
   \<and> determine_overall_risk_level
        (JObj [(''high_severity_count'', JInt 1), (''total_risks_identified'', JInt 1)])
       = Inr ''MEDIUM''
   \<and> determine_overall_risk_level
        (JObj [(''high_severity_count'', JInt 3), (''total_risks_identified'', JInt 3)])
       = Inr ''HIGH''"
  using overall_risk_level_rule [of "[]" 0 0]
    overall_risk_level_rule [of "[(''total_risks_identified'', JInt 1)]" 0 1]
    overall_risk_level_rule [of "[(''total_risks_identified'', JInt 5)]" 0 5]
    overall_risk_level_rule
      [of "[(''high_severity_count'', JInt 1), (''total_risks_identified'', JInt 1)]" 1 1]
    overall_risk_level_rule
      [of "[(''high_severity_count'', JInt 3), (''total_risks_identified'', JInt 3)]" 3 3]
  by (simp add: int_field_def overall_risk_level_spec_def)

subsection \<open>Reading fields\<close>

lemma py_get_obj:
  "py_get (JObj kvs) key dflt = Inr (case map_of kvs key of Some v \<Rightarrow> v | None \<Rightarrow> dflt)"
  by (simp add: py_get_def)

lemma str_field_get:
  "str_field kvs key = Some s \<Longrightarrow> py_get (JObj kvs) key (JStr []) = Inr (JStr s)"
  by (auto simp: str_field_def py_get_obj split: option.splits json.splits)

lemma num_field_get:
  "num_field kvs key = Some f \<Longrightarrow>
   \<exists>v. py_get (JObj kvs) key (JInt 0) = Inr v \<and> as_number v = Some f"
  by (auto simp: num_field_def py_get_obj split: option.splits json.splits)

lemma py_lower_str [simp]: "py_lower (JStr s) = Inr (lower s)"
  by (simp add: py_lower_def)

lemma py_and_simps [simp]:
  "py_and (Inr True) b = b"
  "py_and (Inr False) b = Inr False"
  by (simp_all add: py_and_def)

lemma py_lt_number: "as_number v = Some f \<Longrightarrow> py_lt v k = Inr (score_below f k)"
  by (simp add: py_lt_def score_below_def)

subsection \<open>Containment up to case\<close>

text \<open>The membership test of the source on the lowered text is containment of the
  keyword up to case, for a keyword that is written in lower case.\<close>

lemma contains_sublist: "contains needle hay = sublist needle hay"
  by (induction hay) (auto simp: sublist_Cons_right)

lemma sublist_map_iff:
  "sublist ys (map f xs) \<longleftrightarrow> (\<exists>zs. sublist zs xs \<and> map f zs = ys)"
  by (metis map_mono_sublist sublist_map_rightE)

lemma contains_lower_ci:
  "lower keyword = keyword \<Longrightarrow> contains keyword (lower coverage) = contains_ci keyword coverage"
  by (auto simp: contains_sublist contains_ci_def ci_equal_def lower_def sublist_map_iff
        list_ex_iff)

lemma lower_keywords [simp]:
  "lower ''comprehensive'' = ''comprehensive''"
  "lower ''adequate'' = ''adequate''"
  "lower ''critical'' = ''critical''"
  "lower ''high'' = ''high''"
  "lower ''medium'' = ''medium''"
  by (simp_all add: lower_def lower_char_def)

text \<open>
  C8. For a coverage text, a missing one being empty, and a numeric risk score, a missing
  one being 0, the contract quality is GOOD when the text contains "comprehensive" up to
  case and the score is below 3, otherwise FAIR when it contains "adequate" up to case and
  the score is below 5, otherwise NEEDS_IMPROVEMENT. The tests are containment: the
  witness has texts that contain the keywords without being equal to them.
\<close>

theorem contract_quality_rule:
  assumes "str_field clause_summary ''coverage_assessment'' = Some coverage"
    and "num_field risk_summary ''overall_risk_score'' = Some score"
  shows "assess_contract_quality (JObj clause_summary) (JObj risk_summary)
           = Inr (contract_quality_spec coverage score)"
proof -
  obtain v where v: "py_get (JObj risk_summary) ''overall_risk_score'' (JInt 0) = Inr v"
    "as_number v = Some score"
    using num_field_get [OF assms(2)] by blast
  have c: "py_get (JObj clause_summary) ''coverage_assessment'' (JStr []) = Inr (JStr coverage)"
    by (rule str_field_get [OF assms(1)])
  show ?thesis
    unfolding assess_contract_quality_def c v(1)
    by (cases "contains_ci ''comprehensive'' coverage"; cases "contains_ci ''adequate'' coverage")
       (simp_all add: contains_lower_ci contract_quality_spec_def py_lt_number [OF v(2)])
qed

theorem contract_quality_rule_witness:
  "assess_contract_quality
     (JObj [(''coverage_assessment'', JStr ''Fairly COMPREHENSIVE coverage'')])
     (JObj [(''overall_risk_score'', JInt 2)]) = Inr ''GOOD''
   \<and> assess_contract_quality
     (JObj [(''coverage_assessment'', JStr ''Adequate.'')])
     (JObj [(''overall_risk_score'', JFloat (Finite (9 / 2)))]) = Inr ''FAIR''
   \<and> assess_contract_quality (JObj []) (JObj []) = Inr ''NEEDS_IMPROVEMENT''"
  using contract_quality_rule
      [of "[(''coverage_assessment'', JStr ''Fairly COMPREHENSIVE coverage'')]"
          "''Fairly COMPREHENSIVE coverage''" "[(''overall_risk_score'', JInt 2)]" "Finite 2"]
    contract_quality_rule
      [of "[(''coverage_assessment'', JStr ''Adequate.'')]" "''Adequate.''"
          "[(''overall_risk_score'', JFloat (Finite (9 / 2)))]" "Finite (9 / 2)"]
    contract_quality_rule [of "[]" "[]" "[]" "Finite 0"]
  by (simp add: str_field_def num_field_def contract_quality_spec_def score_below_def
        contains_lower_ci [symmetric] lower_def lower_char_def)

subsection \<open>The next steps\<close>

lemma nested_int_field_get:
  assumes "nested_int_field kvs outer key = Some i"
  shows "\<exists>inner. py_get (JObj kvs) outer (JObj []) = Inr (JObj inner)
           \<and> py_get (JObj inner) key (JInt 0) = Inr (JInt i)"
  using assms
  by (auto simp: nested_int_field_def int_field_def py_get_obj split: option.splits json.splits)

lemma py_str_int [simp]: "py_str w (JInt i) = str_int i"
  by (simp add: py_str_def)

text \<open>
  C9. For integer counts, a missing count being 0, the next steps are, in this order: one
  instruction that names the number of critical changes when it is positive, one that
  names the number of high-severity risks when it is positive, and the three fixed
  instructions; so there are between three and five of them.
\<close>

theorem next_steps_rule:
  assumes "nested_int_field redline_results ''summary'' ''critical_changes''
             = Some critical_changes"
    and "nested_int_field risk_results ''overall_risk_assessment'' ''high_severity_count''
             = Some high_risks"
  shows "generate_next_steps w (JObj risk_results) (JObj redline_results)
           = Inr (next_steps_spec critical_changes high_risks)
         \<and> 3 \<le> length (next_steps_spec critical_changes high_risks)
         \<and> length (next_steps_spec critical_changes high_risks) \<le> 5"
proof -
  obtain summary where s:
    "py_get (JObj redline_results) ''summary'' (JObj []) = Inr (JObj summary)"
    "py_get (JObj summary) ''critical_changes'' (JInt 0) = Inr (JInt critical_changes)"
    using nested_int_field_get [OF assms(1)] by blast
  obtain assessment where a:
    "py_get (JObj risk_results) ''overall_risk_assessment'' (JObj []) = Inr (JObj assessment)"
    "py_get (JObj assessment) ''high_severity_count'' (JInt 0) = Inr (JInt high_risks)"
    using nested_int_field_get [OF assms(2)] by blast
  have "generate_next_steps w (JObj risk_results) (JObj redline_results)
          = Inr (next_steps_spec critical_changes high_risks)"
    by (simp add: generate_next_steps_def next_steps_spec_def s a)
  moreover have "3 \<le> length (next_steps_spec critical_changes high_risks)"
    "length (next_steps_spec critical_changes high_risks) \<le> 5"
    by (simp_all add: next_steps_spec_def)
  ultimately show ?thesis by simp
qed

theorem next_steps_rule_witness:
  "generate_next_steps offline
     (JObj [(''overall_risk_assessment'', JObj [(''high_severity_count'', JInt 12)])])
     (JObj [(''summary'', JObj [(''critical_changes'', JInt 2)])])
   = Inr [''Address 2 critical redline suggestions before proceeding'',
          ''Mitigate 12 high-severity risks identified'',
          ''Review all redline suggestions with legal counsel'',
          ''Negotiate key terms with counterparty'',
          ''Obtain final legal approval before signing'']"
  using next_steps_rule
      [of "[(''summary'', JObj [(''critical_changes'', JInt 2)])]" 2
          "[(''overall_risk_assessment'', JObj [(''high_severity_count'', JInt 12)])]" 12
          offline]
  by (simp add: nested_int_field_def int_field_def next_steps_spec_def str_int_def)

subsection \<open>The example worlds\<close>

lemma scripted_complete [simp]: "complete (scripted f) calls req = f (prompt req)"
  by (simp add: scripted_def)

lemma scripted_text [simp]: "str_exn (scripted f) (ExternalError m) = m"
  "builtin_text (scripted f) e = cpython_text e"
  by (simp_all add: str_exn_def scripted_def)

lemma request_prompts [simp]:
  "prompt (detect_clauses_request t) = DetectClauses"
  "prompt (analyze_risks_request ctx t) = AnalyzeRisks"
  "prompt (assess_language_clarity_request t) = AssessLanguageClarity"
  "prompt (generate_redlines_request ctx t) = GenerateRedlines"
  by (simp_all add: detect_clauses_request_def analyze_risks_request_def
        assess_language_clarity_request_def generate_redlines_request_def)

lemma lease_not_blank: "\<exists>c\<in>set ''Lease''. \<not> py_isspace c"
  by (simp add: py_isspace_def)

subsection \<open>Blank text\<close>

lemma strip_Nil_iff: "strip s = [] \<longleftrightarrow> (\<forall>c\<in>set s. py_isspace c)"
proof -
  have "strip s = [] \<longleftrightarrow> (\<forall>c\<in>set (dropWhile py_isspace s). py_isspace c)"
    by (simp add: strip_def dropWhile_eq_Nil_conv)
  also have "\<dots> \<longleftrightarrow> dropWhile py_isspace s = []"
    by (metis hd_dropWhile list.set_sel(1) empty_iff list.set(1))
  finally show ?thesis by (simp add: dropWhile_eq_Nil_conv)
qed

text \<open>
  C5. For a text that is empty or consists of whitespace only, the review fails at once
  with the message that no contract text was provided, and no request is made.
\<close>

theorem blank_text_rejected:
  assumes "\<forall>c\<in>set contract_text. py_isspace c"
  shows "review_contract w contract_text
           = (JObj [(''error'', JStr ''No contract text provided for review''),
                    (''success'', JBool False)], [])"
  using assms by (simp add: review_contract_def strip_Nil_iff)

theorem blank_text_rejected_witness:
  "py_isspace (CHR '' '') \<and> py_isspace (CHR 0x09) \<and> py_isspace (CHR 0x0A)
   \<and> review_contract offline [CHR '' '', CHR 0x09, CHR 0x0A]
       = (JObj [(''error'', JStr ''No contract text provided for review''),
                (''success'', JBool False)], [])
   \<and> review_contract offline []
       = (JObj [(''error'', JStr ''No contract text provided for review''),
                (''success'', JBool False)], [])"
  using blank_text_rejected [of "[CHR '' '', CHR 0x09, CHR 0x0A]" offline]
    blank_text_rejected [of "[]" offline]
  by (simp add: py_isspace_def)

subsection \<open>Failure of clause detection\<close>

lemma not_blank: "\<exists>c\<in>set s. \<not> py_isspace c \<Longrightarrow> s \<noteq> [] \<and> strip s \<noteq> []"
  by (auto simp: strip_Nil_iff)

lemma ebind_Inr_iff: "ebind m f = Inr y \<longleftrightarrow> (\<exists>x. m = Inr x \<and> f x = Inr y)"
  by (cases m) auto

lemma py_in_obj [simp]: "py_in key (JObj kvs) = Inr (map_of kvs key \<noteq> None)"
  by (simp add: py_in_def)


lemma py_item_Inr: "py_item d key = Inr v \<Longrightarrow> \<exists>kvs. d = JObj kvs \<and> map_of kvs key = Some v"
  by (auto simp: py_item_def split: json.splits option.splits)





subsection \<open>The outcome of a review\<close>

lemma promised_report [simp]: "promised_outcome (review_report a b c d p s n)"
  by (simp add: promised_outcome_def review_report_def five_slots_def)

lemma promised_failure [simp]:
  "promised_outcome (JObj [(''error'', JStr (c # cs)), (''success'', JBool False)])"
  by (simp add: promised_outcome_def)

lemma detect_clauses_error:
  assumes "fst (detect_clauses w [] t) = JObj kvs" and "map_of kvs ''error'' = Some v"
  shows "(\<exists>c cs. v = JStr (c # cs))
       \<or> complete w [] (detect_clauses_request t) = Inr (JObj kvs)"
  using assms
  by (auto simp: detect_clauses_def ask_def detect_clauses_failed_def split: sum.splits)

text \<open>On a console that writes every line the function with its prints is the
  function without them.\<close>

lemma print_then_writes [simp]: "out l = None \<Longrightarrow> print_then out l rest = rest"
  by (simp add: print_then_def)

lemma review_steps_printed_writing:
  assumes "\<forall>l. out l = None"
  shows "review_steps_printed out w t = review_steps w t"
proof -
  have p: "\<And>l rest. print_then out l rest = rest"
    using assms by (simp add: print_then_def)
  show ?thesis
    unfolding review_steps_printed_def review_steps_def p sum.case
    by (rule refl)
qed

lemma review_contract_printed_writing:
  assumes "\<forall>l. out l = None"
  shows "review_contract_printed out w t
           = (Inr (fst (review_contract w t)), snd (review_contract w t))"
  unfolding review_contract_printed_def review_contract_def
    review_steps_printed_writing [OF assms]
  by (simp add: assms split: prod.splits sum.splits)

lemma print_then_Inr_iff:
  "print_then out l rest = Inr y \<longleftrightarrow> out l = None \<and> rest = Inr y"
  by (simp add: print_then_def split: option.splits)

lemma review_steps_printed_cases:
  assumes "review_steps_printed out w t = (Inr result, calls)"
  shows "(\<exists>a b c d p s n. result = review_report a b c d p s n)
       \<or> (\<exists>kvs v. fst (detect_clauses w [] t) = JObj kvs \<and> map_of kvs ''error'' = Some v
             \<and> result = JObj [(''error'', v), (''success'', JBool False)])"
  using assms unfolding review_steps_printed_def Let_def
  apply (auto split: prod.splits sum.splits bool.splits
              simp: ebind_Inr_iff print_then_Inr_iff dest!: py_item_Inr)
  apply blast
  done

text \<open>
  C1, as amended. For a text that is not blank, on a console that writes every line the
  review raises nothing. On any console, what it returns is one of three results:
  \<open>success\<close> true with the five stage slots; \<open>success\<close> false with an error that is
  a non-empty string; or, when the answer of the model to the clause-detection request
  is itself an object with an \<^verbatim>\<open>error\<close> key, \<open>success\<close> false with the value of that
  key passed on as it is. And what it raises, if it raises, is what the console
  answered to the line of the handler.
\<close>

theorem review_outcome:
  assumes "\<exists>c\<in>set contract_text. \<not> py_isspace c"
  shows "((\<forall>l. out l = None) \<longrightarrow>
            (\<exists>result. fst (review_contract_printed out w contract_text) = Inr result))
       \<and> (case fst (review_contract_printed out w contract_text) of
            Inr result \<Rightarrow>
              promised_outcome result
              \<or> (\<exists>answer v.
                    complete w [] (detect_clauses_request contract_text) = Inr (JObj answer)
                  \<and> map_of answer ''error'' = Some v
                  \<and> result = JObj [(''error'', v), (''success'', JBool False)])
          | Inl e \<Rightarrow> \<exists>message. out (ReviewFailed message) = Some e)"
proof -
  have shapes: "case fst (review_contract_printed out w contract_text) of
            Inr result \<Rightarrow>
              promised_outcome result
              \<or> (\<exists>answer v.
                    complete w [] (detect_clauses_request contract_text) = Inr (JObj answer)
                  \<and> map_of answer ''error'' = Some v
                  \<and> result = JObj [(''error'', v), (''success'', JBool False)])
          | Inl e \<Rightarrow> \<exists>message. out (ReviewFailed message) = Some e"
  proof (cases "review_steps_printed out w contract_text")
    case (Pair steps calls)
    show ?thesis
    proof (cases steps)
      case (Inl e)
      then show ?thesis
        using Pair not_blank [OF assms]
        by (auto simp: review_contract_printed_def print_then_def Let_def
              split: option.splits)
    next
      case (Inr result)
      then have r: "fst (review_contract_printed out w contract_text) = Inr result"
        using Pair not_blank [OF assms] by (simp add: review_contract_printed_def)
      from review_steps_printed_cases [of out w contract_text result calls] Pair Inr
      consider (report) a b c d p s n where "result = review_report a b c d p s n"
        | (passed) kvs v where "fst (detect_clauses w [] contract_text) = JObj kvs"
            "map_of kvs ''error'' = Some v"
            "result = JObj [(''error'', v), (''success'', JBool False)]"
        by blast
      then show ?thesis
      proof cases
        case report
        then show ?thesis using r by simp
      next
        case passed
        from detect_clauses_error [OF passed(1,2)] show ?thesis
          using r passed by auto
      qed
    qed
  qed
  moreover have "\<exists>result. fst (review_contract_printed out w contract_text) = Inr result"
    if "\<forall>l. out l = None"
    using shapes that by (cases "fst (review_contract_printed out w contract_text)") simp_all
  ultimately show ?thesis by blast
qed

theorem review_outcome_witness:
  "(\<exists>result. fst (review_contract_printed writing offline ''Lease'') = Inr result
             \<and> promised_outcome result)
   \<and> (\<exists>result. fst (review_contract_printed writing (scripted risk_analysis_down) ''Lease'')
                  = Inr result
             \<and> promised_outcome result)"
proof -
  have w: "\<forall>l. writing l = None"
    by (simp add: writing_def)
  have "complete offline [] (detect_clauses_request ''Lease'')
          = Inl (ExternalError ''Connection error.'')"
    by (simp add: offline_def)
  moreover have "complete (scripted risk_analysis_down) [] (detect_clauses_request ''Lease'')
          = Inr sample_clauses"
    by simp
  ultimately show ?thesis
    using review_outcome [OF lease_not_blank, of writing offline]
      review_outcome [OF lease_not_blank, of writing "scripted risk_analysis_down"] w
    by (auto simp: sample_clauses_def split: sum.splits)
qed

text \<open>
  C1 as stated fails twice. When the model answers the clause-detection request with
  \<^verbatim>\<open>{"error": null}\<close>, the review returns \<open>success\<close> false with the error
  \<^verbatim>\<open>None\<close>, which is no populated error string. And on a console whose encoding is
  ASCII the first line with an emoji raises inside the \<^verbatim>\<open>try\<close>, the line of the
  handler raises again, and that exception leaves the review before any request is
  made.
\<close>

theorem review_outcome_counterexample:
  "fst (review_contract_printed writing (answering (JObj [(''error'', JNull)])) ''Lease'')
     = Inr (JObj [(''error'', JNull), (''success'', JBool False)])
   \<and> \<not> promised_outcome (JObj [(''error'', JNull), (''success'', JBool False)])
   \<and> review_contract_printed ascii_console offline ''Lease''
     = (Inl (cannot_encode (escaped ''u274c'') ''0''), [])"
proof -
  have w: "\<forall>l. writing l = None"
    by (simp add: writing_def)
  have "fst (review_contract (answering (JObj [(''error'', JNull)])) ''Lease'')
     = JObj [(''error'', JNull), (''success'', JBool False)]"
    by (simp add: review_contract_def review_steps_def detect_clauses_def ask_def answering_def
          scripted_def strip_def py_isspace_def py_item_def)
  then have "fst (review_contract_printed writing (answering (JObj [(''error'', JNull)])) ''Lease'')
     = Inr (JObj [(''error'', JNull), (''success'', JBool False)])"
    by (simp add: review_contract_printed_writing [OF w])
  moreover have "\<not> promised_outcome (JObj [(''error'', JNull), (''success'', JBool False)])"
    by (simp add: promised_outcome_def)
  moreover have "review_steps_printed ascii_console offline ''Lease''
      = (Inl (cannot_encode (escaped ''U0001f50d'') ''1''), [])"
    by (simp add: review_steps_printed_def print_then_def)
  then have "review_contract_printed ascii_console offline ''Lease''
     = (Inl (cannot_encode (escaped ''u274c'') ''0''), [])"
    using not_blank [OF lease_not_blank]
    by (simp add: review_contract_printed_def print_then_def Let_def)
  ultimately show ?thesis by simp
qed

subsection \<open>Prioritization\<close>

lemma has_level_record:
  assumes "suggestion_record r" and "lower level = level" and "level \<noteq> []"
  shows "has_level ''priority'' level r = Inr (priority_matches level r)"
proof (cases r)
  case (JObj kvs)
  show ?thesis
  proof (cases "map_of kvs ''priority''")
    case None
    then show ?thesis
      using JObj assms(3)
      by (auto simp: has_level_def priority_matches_def py_get_obj lower_def)
  next
    case (Some v)
    then obtain p where "v = JStr p"
      using assms(1) JObj by (cases v) (simp_all add: suggestion_record_def)
    then show ?thesis
      using JObj Some assms(2)
      by (simp add: has_level_def priority_matches_def py_get_obj ci_equal_def)
  qed
qed (use assms(1) in \<open>simp_all add: suggestion_record_def\<close>)

lemma has_level_Inr:
  "has_level ''priority'' level r = Inr b \<Longrightarrow> suggestion_record r"
  by (auto simp: suggestion_record_def has_level_def py_get_def py_lower_def ebind_Inr_iff
        split: json.splits option.splits)

lemma select_level_records:
  assumes "\<forall>r\<in>set items. suggestion_record r" and "lower level = level" and "level \<noteq> []"
  shows "select_level ''priority'' level items = Inr (filter (priority_matches level) items)"
  using assms by (induction items) (simp_all add: has_level_record)

lemma select_level_Inr:
  "select_level ''priority'' level items = Inr kept \<Longrightarrow> \<forall>r\<in>set items. suggestion_record r"
  by (induction items arbitrary: kept) (auto split: sum.splits dest: has_level_Inr)

lemma prioritize_changes_records:
  assumes "\<forall>r\<in>set items. suggestion_record r"
  shows "prioritize_changes w (JArr items)
           = prioritization_plan (filter (priority_matches ''critical'') items)
               (filter (priority_matches ''high'') items)
               (filter (priority_matches ''medium'') items) (length items)"
  by (simp add: prioritize_changes_def py_iter_def py_len_def select_level_records [OF assms])

lemma prioritize_changes_cases:
  "(\<forall>r\<in>set items. suggestion_record r)
   \<or> (\<exists>e. prioritize_changes w (JArr items) = prioritize_changes_failed w e)"
proof (cases "select_level ''priority'' ''critical'' items")
  case (Inl e)
  then have "prioritize_changes w (JArr items) = prioritize_changes_failed w e"
    by (simp add: prioritize_changes_def py_iter_def)
  then show ?thesis by blast
next
  case (Inr kept)
  then show ?thesis using select_level_Inr by blast
qed

lemma bucket_plan [simp]:
  "bucket ''phase_1_critical'' (prioritization_plan c h m n) = Some c"
  "bucket ''phase_2_high'' (prioritization_plan c h m n) = Some h"
  "bucket ''phase_3_medium'' (prioritization_plan c h m n) = Some m"
  by (simp_all add: bucket_def prioritization_plan_def)

lemma bucket_failed [simp]: "bucket phase (prioritize_changes_failed w e) = None"
  by (simp add: bucket_def prioritize_changes_failed_def)

lemma priority_matches_same:
  "priority_matches a r \<Longrightarrow> priority_matches b r \<Longrightarrow> lower a = lower b"
  by (auto simp: priority_matches_def ci_equal_def split: json.splits option.splits)

lemma levels_exclusive:
  "\<not> (priority_matches ''critical'' r \<and> priority_matches ''high'' r)"
  "\<not> (priority_matches ''critical'' r \<and> priority_matches ''medium'' r)"
  "\<not> (priority_matches ''high'' r \<and> priority_matches ''medium'' r)"
  using priority_matches_same [of "''critical''" r "''high''"]
    priority_matches_same [of "''critical''" r "''medium''"]
    priority_matches_same [of "''high''" r "''medium''"]
  by auto

lemma holding_filters:
  assumes "r \<in> set items"
  shows "holding r [filter (priority_matches ''critical'') items,
                    filter (priority_matches ''high'') items,
                    filter (priority_matches ''medium'') items]
           = (if named_priority r then 1 else 0)"
  using assms levels_exclusive [of r] by (auto simp: holding_def named_priority_def)

lemma plan_paths [simp]:
  "at_path [''negotiation_roadmap'', ''must_have_count''] (prioritization_plan c h m n)
     = Some (JInt (int (length c)))"
  "at_path [''negotiation_roadmap'', ''high_priority_count''] (prioritization_plan c h m n)
     = Some (JInt (int (length h)))"
  "at_path [''negotiation_roadmap'', ''total_items''] (prioritization_plan c h m n)
     = Some (JInt (int n))"
  "at_path [''implementation_phases'', ''phase_1_critical'', ''timeline'']
     (prioritization_plan c h m n) = Some (JStr ''Address before any signing'')"
  "at_path [''implementation_phases'', ''phase_1_critical'', ''negotiation_approach'']
     (prioritization_plan c h m n) = Some (JStr ''Non-negotiable positions'')"
  "at_path [''implementation_phases'', ''phase_2_high'', ''timeline'']
     (prioritization_plan c h m n) = Some (JStr ''Primary negotiation focus'')"
  "at_path [''implementation_phases'', ''phase_2_high'', ''negotiation_approach'']
     (prioritization_plan c h m n) = Some (JStr ''Strong preference, willing to trade'')"
  "at_path [''implementation_phases'', ''phase_3_medium'', ''timeline'']
     (prioritization_plan c h m n) = Some (JStr ''Secondary negotiation items'')"
  "at_path [''implementation_phases'', ''phase_3_medium'', ''negotiation_approach'']
     (prioritization_plan c h m n) = Some (JStr ''Nice to have improvements'')"
  by (simp_all add: prioritization_plan_def)

text \<open>
  C6, as amended. For a list of suggestion records, each a dictionary whose priority is a
  string or absent, the three buckets exist; an item is in the bucket of a level exactly
  when its priority equals the level up to case, so an item with a named priority is in
  exactly one bucket and any other item in none; the counts are the sizes of the critical
  and the high bucket and the length of the input; and the phases carry the six literal
  labels.
\<close>

theorem prioritization_partition:
  assumes "\<forall>r\<in>set items. suggestion_record r"
  shows "\<exists>critical high medium.
      bucket ''phase_1_critical'' (prioritize_changes w (JArr items)) = Some critical
    \<and> bucket ''phase_2_high'' (prioritize_changes w (JArr items)) = Some high
    \<and> bucket ''phase_3_medium'' (prioritize_changes w (JArr items)) = Some medium
    \<and> (\<forall>r\<in>set items.
          (r \<in> set critical \<longleftrightarrow> priority_matches ''critical'' r)
        \<and> (r \<in> set high \<longleftrightarrow> priority_matches ''high'' r)
        \<and> (r \<in> set medium \<longleftrightarrow> priority_matches ''medium'' r)
        \<and> holding r [critical, high, medium] = (if named_priority r then 1 else 0))
    \<and> at_path [''negotiation_roadmap'', ''must_have_count'']
          (prioritize_changes w (JArr items)) = Some (JInt (int (length critical)))
    \<and> at_path [''negotiation_roadmap'', ''high_priority_count'']
          (prioritize_changes w (JArr items)) = Some (JInt (int (length high)))
    \<and> at_path [''negotiation_roadmap'', ''total_items'']
          (prioritize_changes w (JArr items)) = Some (JInt (int (length items)))
    \<and> at_path [''implementation_phases'', ''phase_1_critical'', ''timeline'']
          (prioritize_changes w (JArr items)) = Some (JStr ''Address before any signing'')
    \<and> at_path [''implementation_phases'', ''phase_1_critical'', ''negotiation_approach'']
          (prioritize_changes w (JArr items)) = Some (JStr ''Non-negotiable positions'')
    \<and> at_path [''implementation_phases'', ''phase_2_high'', ''timeline'']
          (prioritize_changes w (JArr items)) = Some (JStr ''Primary negotiation focus'')
    \<and> at_path [''implementation_phases'', ''phase_2_high'', ''negotiation_approach'']
          (prioritize_changes w (JArr items))
          = Some (JStr ''Strong preference, willing to trade'')
    \<and> at_path [''implementation_phases'', ''phase_3_medium'', ''timeline'']
          (prioritize_changes w (JArr items)) = Some (JStr ''Secondary negotiation items'')
    \<and> at_path [''implementation_phases'', ''phase_3_medium'', ''negotiation_approach'']
          (prioritize_changes w (JArr items)) = Some (JStr ''Nice to have improvements'')"
proof -
  let ?c = "filter (priority_matches ''critical'') items"
  let ?h = "filter (priority_matches ''high'') items"
  let ?m = "filter (priority_matches ''medium'') items"
  have members: "\<forall>r\<in>set items.
          (r \<in> set ?c \<longleftrightarrow> priority_matches ''critical'' r)
        \<and> (r \<in> set ?h \<longleftrightarrow> priority_matches ''high'' r)
        \<and> (r \<in> set ?m \<longleftrightarrow> priority_matches ''medium'' r)
        \<and> holding r [?c, ?h, ?m] = (if named_priority r then 1 else 0)"
    using holding_filters by simp
  show ?thesis
    unfolding prioritize_changes_records [OF assms]
    apply (rule exI [of _ ?c], rule exI [of _ ?h], rule exI [of _ ?m])
    using members apply simp
    done
qed

theorem prioritization_partition_witness:
  "bucket ''phase_1_critical'' (prioritize_changes offline (JArr spec_suggestions))
     = Some [JObj [(''priority'', JStr ''Critical'')]]
   \<and> bucket ''phase_2_high'' (prioritize_changes offline (JArr spec_suggestions))
     = Some [JObj [(''priority'', JStr ''High'')], JObj [(''priority'', JStr ''HIGH'')]]
   \<and> bucket ''phase_3_medium'' (prioritize_changes offline (JArr spec_suggestions)) = Some []
   \<and> at_path [''negotiation_roadmap'', ''total_items'']
        (prioritize_changes offline (JArr spec_suggestions)) = Some (JInt 4)"
proof -
  have records: "\<forall>r\<in>set spec_suggestions. suggestion_record r"
    by (simp add: spec_suggestions_def suggestion_record_def)
  have plan: "prioritize_changes offline (JArr spec_suggestions)
      = prioritization_plan [JObj [(''priority'', JStr ''Critical'')]]
          [JObj [(''priority'', JStr ''High'')], JObj [(''priority'', JStr ''HIGH'')]] []
          (length spec_suggestions)"
    by (simp add: prioritize_changes_records [OF records])
       (simp add: spec_suggestions_def priority_matches_def ci_equal_def lower_def
          lower_char_def)
  show ?thesis
    using prioritization_partition [OF records, of offline]
    by (simp add: plan) (simp add: spec_suggestions_def)
qed

text \<open>
  C6 as stated fails: a record whose priority is \<^verbatim>\<open>None\<close> makes \<^verbatim>\<open>.lower()\<close> raise,
  and the handler returns a plan without phases and without counts.
\<close>

theorem prioritization_partition_counterexample:
  "prioritize_changes offline (JArr [JObj [(''priority'', JNull)]])
     = JObj [(''error'',
                JStr (''Failed to prioritize changes: '' @ quoted ''NoneType''
                      @ '' object has no attribute '' @ quoted ''lower'')),
             (''implementation_phases'', JObj []),
             (''negotiation_roadmap'', JObj [])]
   \<and> at_path [''negotiation_roadmap'', ''total_items'']
        (prioritize_changes offline (JArr [JObj [(''priority'', JNull)]])) = None
   \<and> at_path [''implementation_phases'', ''phase_1_critical'', ''timeline'']
        (prioritize_changes offline (JArr [JObj [(''priority'', JNull)]])) = None"
  by (simp add: prioritize_changes_def py_iter_def has_level_def py_get_obj py_lower_def
        prioritize_changes_failed_def str_exn_def offline_def scripted_def)

lemma count_list_filter:
  "count_list (filter P xs) x = (if P x then count_list xs x else 0)"
  by (induction xs) auto

text \<open>
  C10, as amended. For a list of suggestion records each bucket is the input filtered by
  its level: the items whose priority matches, in their order and with their
  multiplicities. For any list, a bucket that the result has is that filter; when some
  item is not a suggestion record the result has no bucket.
\<close>

theorem buckets_stable:
  assumes "(phase, level) \<in> set [(''phase_1_critical'', ''critical''),
             (''phase_2_high'', ''high''), (''phase_3_medium'', ''medium'')]"
  shows "((\<forall>r\<in>set items. suggestion_record r) \<longrightarrow>
            bucket phase (prioritize_changes w (JArr items))
              = Some (filter (priority_matches level) items))
       \<and> (\<forall>b. bucket phase (prioritize_changes w (JArr items)) = Some b \<longrightarrow>
              b = filter (priority_matches level) items
            \<and> subseq b items
            \<and> (\<forall>x. count_list b x = (if priority_matches level x then count_list items x else 0)))"
proof (cases "\<forall>r\<in>set items. suggestion_record r")
  case True
  show ?thesis
    using assms by (auto simp: prioritize_changes_records [OF True] count_list_filter)
next
  case False
  then obtain e where "prioritize_changes w (JArr items) = prioritize_changes_failed w e"
    using prioritize_changes_cases [of items w] by blast
  then show ?thesis using False by simp
qed

theorem buckets_stable_witness:
  "bucket ''phase_2_high'' (prioritize_changes offline (JArr spec_suggestions))
     = Some [JObj [(''priority'', JStr ''High'')], JObj [(''priority'', JStr ''HIGH'')]]
   \<and> subseq [JObj [(''priority'', JStr ''High'')], JObj [(''priority'', JStr ''HIGH'')]]
        spec_suggestions"
proof -
  have records: "\<forall>r\<in>set spec_suggestions. suggestion_record r"
    by (simp add: spec_suggestions_def suggestion_record_def)
  have level: "(''phase_2_high'', ''high'') \<in> set [(''phase_1_critical'', ''critical''),
             (''phase_2_high'', ''high''), (''phase_3_medium'', ''medium'')]"
    by simp
  have f: "filter (priority_matches ''high'') spec_suggestions
             = [JObj [(''priority'', JStr ''High'')], JObj [(''priority'', JStr ''HIGH'')]]"
    by (simp add: spec_suggestions_def priority_matches_def ci_equal_def lower_def
          lower_char_def)
  have "bucket ''phase_2_high'' (prioritize_changes offline (JArr spec_suggestions))
          = Some (filter (priority_matches ''high'') spec_suggestions)"
    using buckets_stable [OF level, of spec_suggestions offline] records by blast
  moreover have "subseq (filter (priority_matches ''high'') spec_suggestions) spec_suggestions"
    by simp
  ultimately show ?thesis
    unfolding f by simp
qed

text \<open>
  C10 as stated fails: in a list where one record has the priority 2, the record with the
  priority High is the stable filter for the high level, and the result has no such
  bucket.
\<close>

theorem buckets_stable_counterexample:
  "filter (priority_matches ''high'')
       [JObj [(''priority'', JStr ''High'')], JObj [(''priority'', JInt 2)]]
     = [JObj [(''priority'', JStr ''High'')]]
   \<and> bucket ''phase_2_high''
        (prioritize_changes offline
           (JArr [JObj [(''priority'', JStr ''High'')], JObj [(''priority'', JInt 2)]]))
     = None"
  by (simp add: prioritize_changes_def py_iter_def has_level_def py_get_obj py_lower_def
        prioritize_changes_failed_def bucket_def priority_matches_def ci_equal_def
        lower_def lower_char_def)

subsection \<open>Failures after clause detection\<close>










lemma report_paths [simp]:
  "at_path [''success''] (review_report a b c d p s n) = Some (JBool True)"
  "at_path [''error''] (review_report a b c d p s n) = None"
  "review_slot ''clause_detection'' (review_report a b c d p s n) = Some a"
  "review_slot ''risk_analysis'' (review_report a b c d p s n) = Some b"
  "review_slot ''language_clarity'' (review_report a b c d p s n) = Some c"
  "review_slot ''redline_suggestions'' (review_report a b c d p s n) = Some d"
  "review_slot ''change_prioritization'' (review_report a b c d p s n) = Some p"
  by (simp_all add: review_report_def review_slot_def)















end
